theory Spec2Isabelle
  imports Complex_Main "HOL-Library.Word"
begin

section \<open>Python values, exceptions and the data of the connector\<close>

text \<open>
  The module \<open>rag/rag_engine.py\<close> is a thin connector between a caller and a remote
  vector database. A Python \<open>str\<close> is modelled by \<open>string\<close>, read as the UTF-8 bytes
  of the text; a metadata \<open>dict\<close> is an association list from keys to Python values,
  looked up with \<open>map_of\<close>; distances are \<open>real\<close>.
\<close>

datatype pyvalue =
    PStr string
  | PInt int
  | PFloat real
  | PBool bool
  | PNone
  | PList "pyvalue list"
  | PDict "(string \<times> pyvalue) list"

text \<open>The scalars of the remote protocol: strings, numbers and booleans.\<close>

fun is_scalar :: "pyvalue \<Rightarrow> bool" where
  "is_scalar (PStr _) = True"
| "is_scalar (PInt _) = True"
| "is_scalar (PFloat _) = True"
| "is_scalar (PBool _) = True"
| "is_scalar _ = False"

type_synonym metadata = "(string \<times> pyvalue) list"

text \<open>
  Exceptions. \<open>TypeError\<close> and \<open>IndexError\<close> are raised by Python itself when a
  response is subscripted; the others stand for what the client library may raise.
\<close>

datatype error =
    ConnectionError
  | AuthorizationError
  | RateLimitError
  | NotFoundError
  | InvalidArgumentError
  | TypeError
  | IndexError
  | ValueError

type_synonym byte = "8 word"

text \<open>\<open>text.encode("utf-8")\<close>: the bytes of the text.\<close>

definition encode_utf8 :: "string \<Rightarrow> byte list" where
  "encode_utf8 t = map (\<lambda>c. of_nat (of_char c)) t"

text \<open>\<open>OpenAIEmbeddingFunction(api_key=..., model_name=...)\<close>.\<close>

record embedding_function =
  ef_api_key :: "string option"
  ef_model_name :: string

text \<open>
  The collection object held by the module: a handle naming a server-side collection,
  together with the embedding function it was obtained with.
\<close>

record collection_handle =
  coll_name :: string
  coll_embedding_function :: embedding_function

text \<open>The keyword arguments of \<open>collection.add\<close> and \<open>collection.query\<close>.\<close>

record add_request =
  add_documents :: "string list"
  add_metadatas :: "metadata list"
  add_ids :: "string list"

record query_request =
  query_texts :: "string list"
  n_results :: int
  where_filter :: "metadata option"
  include_keys :: "string list"

text \<open>
  The response of \<open>collection.query\<close>: a dict of parallel arrays, one row per query
  text. \<open>None\<close> is Python's \<open>None\<close> (a key that was not included).
\<close>

record query_result =
  documents :: "string list list option"
  metadatas :: "metadata option list list option"
  distances :: "real list list option"

text \<open>One element of the list that \<open>query_vector_db\<close> returns.\<close>

record retrieved_record =
  r_text :: string
  r_metadata :: metadata
  r_distance :: real

section \<open>The remote vector service\<close>

text \<open>
  The service is reached over HTTP and is not part of the module. Its state is a record:
  the stored collections by name, the log of the calls it has received (oldest first),
  and three parameters left open: which calls fail in transport or are refused
  (\<open>fault\<close>), the distance between a query text and a document text under an embedding
  function (\<open>embed_distance\<close>), and what is stored when an id is added again
  (\<open>on_duplicate\<close>, applied to the stored and the new document).
\<close>

record document =
  doc_id :: string
  doc_text :: string
  doc_meta :: "metadata option"

datatype call =
    Heartbeat
  | GetOrCreateCollection string embedding_function
  | DeleteCollection string
  | Add string add_request
  | Query string query_request

record server =
  collections :: "string \<rightharpoonup> document list"
  fault :: "call \<Rightarrow> error option"
  embed_distance :: "embedding_function \<Rightarrow> string \<Rightarrow> string \<Rightarrow> real"
  on_duplicate :: "document \<Rightarrow> document \<Rightarrow> document"
  calls :: "call list"

definition received :: "call \<Rightarrow> server \<Rightarrow> server" where
  "received c s = s\<lparr>calls := calls s @ [c]\<rparr>"

text \<open>
  Modelled from the spec: the liveness endpoint of the remote service (the client library
  is not under src/). The call completes unless the transport or the service fails it.
\<close>

definition heartbeat :: "server \<Rightarrow> (error + unit) \<times> server" where
  "heartbeat s =
     (case fault s Heartbeat of
        Some e \<Rightarrow> (Inl e, received Heartbeat s)
      | None \<Rightarrow> (Inr (), received Heartbeat s))"

text \<open>
  Modelled from the spec: collection get-or-create by name. The collection is created
  empty if absent; the handle returned is bound to the embedding function given.
\<close>

definition get_or_create_collection ::
  "string \<Rightarrow> embedding_function \<Rightarrow> server \<Rightarrow> (error + collection_handle) \<times> server" where
  "get_or_create_collection name ef s =
     (let s' = received (GetOrCreateCollection name ef) s in
      case fault s (GetOrCreateCollection name ef) of
        Some e \<Rightarrow> (Inl e, s')
      | None \<Rightarrow>
          (Inr \<lparr>coll_name = name, coll_embedding_function = ef\<rparr>,
           (case collections s name of
              Some _ \<Rightarrow> s'
            | None \<Rightarrow> s'\<lparr>collections := (collections s)(name \<mapsto> [])\<rparr>)))"

text \<open>
  Modelled from the spec: collection delete by name. Deleting a collection that does not
  exist is a remote error.
\<close>

definition delete_collection :: "string \<Rightarrow> server \<Rightarrow> (error + unit) \<times> server" where
  "delete_collection name s =
     (let s' = received (DeleteCollection name) s in
      case fault s (DeleteCollection name) of
        Some e \<Rightarrow> (Inl e, s')
      | None \<Rightarrow>
          (case collections s name of
             None \<Rightarrow> (Inl NotFoundError, s')
           | Some _ \<Rightarrow> (Inr (), s'\<lparr>collections := (collections s)(name := None)\<rparr>)))"

text \<open>
  Modelled from the spec: document add. A document whose id is already stored replaces
  the stored one as \<open>on_duplicate\<close> says and keeps the id (upsert, not duplication); a
  new id is appended. The protocol accepts scalar metadata values only.
\<close>

fun upsert :: "(document \<Rightarrow> document \<Rightarrow> document) \<Rightarrow> document \<Rightarrow> document list \<Rightarrow> document list" where
  "upsert f d [] = [d]"
| "upsert f d (x # xs) =
     (if doc_id x = doc_id d then (f x d)\<lparr>doc_id := doc_id x\<rparr> # xs
      else x # upsert f d xs)"

definition new_documents :: "add_request \<Rightarrow> document list" where
  "new_documents req =
     map (\<lambda>(i, t, m). \<lparr>doc_id = i, doc_text = t, doc_meta = Some m\<rparr>)
       (zip (add_ids req) (zip (add_documents req) (add_metadatas req)))"

definition well_formed_add :: "add_request \<Rightarrow> bool" where
  "well_formed_add req \<longleftrightarrow>
     length (add_documents req) = length (add_ids req) \<and>
     length (add_metadatas req) = length (add_ids req) \<and>
     list_all (list_all (\<lambda>kv. is_scalar (snd kv))) (add_metadatas req)"

definition collection_add ::
  "collection_handle \<Rightarrow> add_request \<Rightarrow> server \<Rightarrow> (error + unit) \<times> server" where
  "collection_add h req s =
     (let s' = received (Add (coll_name h) req) s in
      case fault s (Add (coll_name h) req) of
        Some e \<Rightarrow> (Inl e, s')
      | None \<Rightarrow>
          (case collections s (coll_name h) of
             None \<Rightarrow> (Inl NotFoundError, s')
           | Some docs \<Rightarrow>
               if well_formed_add req
               then (Inr (),
                     s'\<lparr>collections := (collections s)(coll_name h \<mapsto>
                          foldl (\<lambda>ds d. upsert (on_duplicate s) d ds) docs (new_documents req))\<rparr>)
               else (Inl InvalidArgumentError, s')))"

text \<open>
  Modelled from the spec: document query. For each query text the service keeps the
  stored documents that satisfy the equality filter (every key of the filter is present
  in the document's metadata with exactly that value), orders them by ascending distance
  to the query text and returns at most \<open>n_results\<close> of them, as parallel arrays. A
  result count that is not positive is a malformed request.
\<close>

definition doc_metadata :: "document \<Rightarrow> metadata" where
  "doc_metadata d = (case doc_meta d of None \<Rightarrow> [] | Some m \<Rightarrow> m)"

fun matches :: "metadata option \<Rightarrow> document \<Rightarrow> bool" where
  "matches None d = True"
| "matches (Some w) d = list_all (\<lambda>kv. map_of (doc_metadata d) (fst kv) = Some (snd kv)) w"

definition nearest ::
  "server \<Rightarrow> collection_handle \<Rightarrow> query_request \<Rightarrow> document list \<Rightarrow> string \<Rightarrow> document list" where
  "nearest s h req docs q =
     take (nat (n_results req))
       (sort_key (\<lambda>d. embed_distance s (coll_embedding_function h) q (doc_text d))
          (filter (matches (where_filter req)) docs))"

definition included :: "string \<Rightarrow> query_request \<Rightarrow> 'a \<Rightarrow> 'a option" where
  "included k req v = (if k \<in> set (include_keys req) then Some v else None)"

definition collection_query ::
  "collection_handle \<Rightarrow> query_request \<Rightarrow> server \<Rightarrow> (error + query_result) \<times> server" where
  "collection_query h req s =
     (let s' = received (Query (coll_name h) req) s in
      case fault s (Query (coll_name h) req) of
        Some e \<Rightarrow> (Inl e, s')
      | None \<Rightarrow>
          (case collections s (coll_name h) of
             None \<Rightarrow> (Inl NotFoundError, s')
           | Some docs \<Rightarrow>
               if n_results req \<le> 0 then (Inl InvalidArgumentError, s')
               else
                 (Inr \<lparr>documents = included ''documents'' req
                          (map (\<lambda>q. map doc_text (nearest s h req docs q)) (query_texts req)),
                       metadatas = included ''metadatas'' req
                          (map (\<lambda>q. map doc_meta (nearest s h req docs q)) (query_texts req)),
                       distances = included ''distances'' req
                          (map (\<lambda>q. map (\<lambda>d. embed_distance s (coll_embedding_function h) q (doc_text d))
                                      (nearest s h req docs q)) (query_texts req))\<rparr>,
                  s')))"

section \<open>The module\<close>

text \<open>
  The configuration read from the environment, and the three module globals
  \<open>client\<close>, \<open>collection\<close>, \<open>embedding_func\<close>. The \<open>print\<close> calls are left out.
\<close>

record config =
  CHROMA_HOST :: string
  CHROMA_PORT :: int
  CHROMA_SSL :: bool
  CHROMA_AUTH_TOKEN :: "string option"
  OPENAI_API_KEY :: "string option"

definition COLLECTION_NAME :: string where
  "COLLECTION_NAME = ''sales_features''"

record http_client =
  host :: string
  port :: int
  ssl :: bool
  headers :: "(string \<times> string) list"

record connector =
  client :: http_client
  collection :: collection_handle
  embedding_func :: embedding_function

text \<open>
  \<open>get_vector_client_and_collection\<close>, step by step as the source has it: build the
  headers (lines 29 to 31, the token tested for truth), construct the client (line 35,
  outside the \<open>try\<close>), test the connection once and re-raise whatever the heartbeat
  raised (lines 43 to 48), construct the embedding function (line 50), get or create the
  collection (line 55). An exception of any step leaves the function at once.

  The two constructors \<open>chromadb.HttpClient\<close> and \<open>OpenAIEmbeddingFunction\<close> are the
  libraries' and may raise; they are taken as the parameters \<open>HttpClient\<close> (host, port,
  ssl, headers) and \<open>OpenAIEmbeddingFunction\<close> (api key, model name). Whatever traffic
  the client constructor has of its own is not one of the operations of the service
  above, so it leaves the state of the service as it is.
\<close>

definition auth_headers :: "config \<Rightarrow> (string \<times> string) list" where
  "auth_headers cfg =
     (case CHROMA_AUTH_TOKEN cfg of
        None \<Rightarrow> []
      | Some tok \<Rightarrow> if tok = [] then [] else [(''Authorization'', ''Bearer '' @ tok)])"

definition get_vector_client_and_collection ::
  "(string \<Rightarrow> int \<Rightarrow> bool \<Rightarrow> (string \<times> string) list \<Rightarrow> error + http_client)
     \<Rightarrow> (string option \<Rightarrow> string \<Rightarrow> error + embedding_function)
     \<Rightarrow> config \<Rightarrow> server \<Rightarrow> (error + connector) \<times> server" where
  "get_vector_client_and_collection HttpClient OpenAIEmbeddingFunction cfg s =
     (case HttpClient (CHROMA_HOST cfg) (CHROMA_PORT cfg) (CHROMA_SSL cfg) (auth_headers cfg) of
        Inl e \<Rightarrow> (Inl e, s)
      | Inr cl \<Rightarrow>
          (case heartbeat s of
             (Inl e, s1) \<Rightarrow> (Inl e, s1)
           | (Inr _, s1) \<Rightarrow>
               (case OpenAIEmbeddingFunction (OPENAI_API_KEY cfg) ''text-embedding-3-small'' of
                  Inl e \<Rightarrow> (Inl e, s1)
                | Inr ef \<Rightarrow>
                    (case get_or_create_collection COLLECTION_NAME ef s1 of
                       (Inl e, s2) \<Rightarrow> (Inl e, s2)
                     | (Inr c, s2) \<Rightarrow>
                         (Inr \<lparr>client = cl, collection = c, embedding_func = ef\<rparr>, s2)))))"

text \<open>
  \<open>ingest_to_vector_db\<close>. The digest \<open>hashlib.sha256(...).hexdigest()\<close> is the library's
  and is taken as the parameter \<open>sha256_hex\<close>, from bytes to the hex string.
\<close>

definition ingest_to_vector_db ::
  "(byte list \<Rightarrow> string) \<Rightarrow> connector \<Rightarrow> server \<Rightarrow> string \<Rightarrow> metadata \<Rightarrow> (error + unit) \<times> server" where
  "ingest_to_vector_db sha256_hex conn s t metadata =
     (let doc_id = sha256_hex (encode_utf8 t)
      in collection_add (collection conn)
           \<lparr>add_documents = [t], add_metadatas = [metadata], add_ids = [doc_id]\<rparr> s)"

text \<open>
  \<open>query_vector_db\<close>. Line 96 builds the filter: \<open>customer_filter\<close> is tested for
  truth, so both \<open>None\<close> and the empty string give no filter.
\<close>

definition customer_where :: "string option \<Rightarrow> metadata option" where
  "customer_where customer_filter =
     (case customer_filter of
        None \<Rightarrow> None
      | Some f \<Rightarrow> if f = [] then None else Some [(''customer_name'', PStr f)])"

text \<open>
  Lines 105 to 120: an absent or empty \<open>documents\<close> array, or an empty first row, gives
  the empty list; otherwise the three first rows are zipped, and \<open>meta or {}\<close> turns a
  missing metadata into the empty mapping. Subscripting \<open>None\<close> raises \<open>TypeError\<close>,
  subscripting an empty list raises \<open>IndexError\<close>.
\<close>

definition retrieved :: "query_result \<Rightarrow> error + retrieved_record list" where
  "retrieved results =
     (case documents results of
        None \<Rightarrow> Inr []
      | Some [] \<Rightarrow> Inr []
      | Some (docs0 # _) \<Rightarrow>
          if docs0 = [] then Inr []
          else
            (case metadatas results of
               None \<Rightarrow> Inl TypeError
             | Some [] \<Rightarrow> Inl IndexError
             | Some (metas0 # _) \<Rightarrow>
                 (case distances results of
                    None \<Rightarrow> Inl TypeError
                  | Some [] \<Rightarrow> Inl IndexError
                  | Some (dists0 # _) \<Rightarrow>
                      Inr (map (\<lambda>(doc_text, meta, distance).
                                  \<lparr>r_text = doc_text,
                                   r_metadata = (case meta of None \<Rightarrow> [] | Some m \<Rightarrow> m),
                                   r_distance = distance\<rparr>)
                             (zip docs0 (zip metas0 dists0))))))"

definition query_vector_db ::
  "connector \<Rightarrow> server \<Rightarrow> string \<Rightarrow> string option \<Rightarrow> int
     \<Rightarrow> (error + retrieved_record list) \<times> server" where
  "query_vector_db conn s query customer_filter n =
     (case collection_query (collection conn)
             \<lparr>query_texts = [query], n_results = n,
              where_filter = customer_where customer_filter,
              include_keys = [''documents'', ''metadatas'', ''distances'']\<rparr> s of
        (Inl e, s') \<Rightarrow> (Inl e, s')
      | (Inr results, s') \<Rightarrow> (retrieved results, s'))"

text \<open>
  \<open>reset_collection\<close>: delete the collection, then get or create it again with the
  module's embedding function and rebind the global \<open>collection\<close>. An exception leaves
  the global as it was.
\<close>

definition reset_collection :: "connector \<Rightarrow> server \<Rightarrow> (error + unit) \<times> connector \<times> server" where
  "reset_collection conn s =
     (case delete_collection COLLECTION_NAME s of
        (Inl e, s1) \<Rightarrow> (Inl e, conn, s1)
      | (Inr _, s1) \<Rightarrow>
          (case get_or_create_collection COLLECTION_NAME (embedding_func conn) s1 of
             (Inl e, s2) \<Rightarrow> (Inl e, conn, s2)
           | (Inr c, s2) \<Rightarrow> (Inr (), conn\<lparr>collection := c\<rparr>, s2)))"

section \<open>Notions used to state the properties\<close>

text \<open>
  The call that \<open>query_vector_db\<close> sends, the record it builds from a stored document,
  and the documents the service selects for it.
\<close>

definition issued_query :: "connector \<Rightarrow> string \<Rightarrow> string option \<Rightarrow> int \<Rightarrow> call" where
  "issued_query conn query customer_filter n =
     Query (coll_name (collection conn))
       \<lparr>query_texts = [query], n_results = n,
        where_filter = customer_where customer_filter,
        include_keys = [''documents'', ''metadatas'', ''distances'']\<rparr>"

definition hit_record :: "server \<Rightarrow> connector \<Rightarrow> string \<Rightarrow> document \<Rightarrow> retrieved_record" where
  "hit_record s conn q d =
     \<lparr>r_text = doc_text d, r_metadata = doc_metadata d,
      r_distance = embed_distance s (coll_embedding_function (collection conn)) q (doc_text d)\<rparr>"

definition hits :: "server \<Rightarrow> connector \<Rightarrow> string \<Rightarrow> string option \<Rightarrow> int \<Rightarrow> document list \<Rightarrow> document list" where
  "hits s conn q f n docs =
     take (nat n)
       (sort_key (\<lambda>d. embed_distance s (coll_embedding_function (collection conn)) q (doc_text d))
          (filter (matches (customer_where f)) docs))"


text \<open>The ids stored in a collection, in storage order.\<close>

definition stored_ids :: "server \<Rightarrow> string \<Rightarrow> string list" where
  "stored_ids s name = (case collections s name of None \<Rightarrow> [] | Some docs \<Rightarrow> map doc_id docs)"

text \<open>
  The spec's reading of the customer filter, in its own words: when a filter is present,
  the documents in scope are those whose metadata field \<open>customer_name\<close> equals this
  value exactly; without a filter every document is in scope. It is compared with what
  the code sends (\<open>customer_where\<close>).
\<close>

definition spec_in_scope :: "string option \<Rightarrow> document \<Rightarrow> bool" where
  "spec_in_scope customer_filter d =
     (case customer_filter of
        None \<Rightarrow> True
      | Some f \<Rightarrow> map_of (doc_metadata d) ''customer_name'' = Some (PStr f))"

text \<open>Concrete states for the examples.\<close>

definition no_fault :: "call \<Rightarrow> error option" where
  "no_fault c = None"

definition length_distance :: "embedding_function \<Rightarrow> string \<Rightarrow> string \<Rightarrow> real" where
  "length_distance ef q d = real (length d)"

definition replace_stored :: "document \<Rightarrow> document \<Rightarrow> document" where
  "replace_stored old new = new"

definition example_ef :: embedding_function where
  "example_ef = \<lparr>ef_api_key = Some ''sk-test'', ef_model_name = ''text-embedding-3-small''\<rparr>"

definition example_connector :: connector where
  "example_connector =
     \<lparr>client = \<lparr>host = ''localhost'', port = 8000, ssl = False, headers = []\<rparr>,
      collection = \<lparr>coll_name = ''sales_features'', coll_embedding_function = example_ef\<rparr>,
      embedding_func = example_ef\<rparr>"

definition acme_doc :: document where
  "acme_doc = \<lparr>doc_id = ''a1'', doc_text = ''Acme renewed at 50k'',
                doc_meta = Some [(''customer_name'', PStr ''Acme'')]\<rparr>"

definition globex_doc :: document where
  "globex_doc = \<lparr>doc_id = ''g1'', doc_text = ''Globex churned'',
                  doc_meta = Some [(''customer_name'', PStr ''Globex'')]\<rparr>"

definition bare_doc :: document where
  "bare_doc = \<lparr>doc_id = ''n1'', doc_text = ''note'', doc_meta = None\<rparr>"

definition example_server :: server where
  "example_server =
     \<lparr>collections = [''sales_features'' \<mapsto> [acme_doc, globex_doc, bare_doc]],
      fault = no_fault, embed_distance = length_distance, on_duplicate = replace_stored,
      calls = []\<rparr>"

definition empty_server :: server where
  "empty_server =
     \<lparr>collections = Map.empty,
      fault = no_fault, embed_distance = length_distance, on_duplicate = replace_stored,
      calls = []\<rparr>"

definition example_config :: config where
  "example_config =
     \<lparr>CHROMA_HOST = ''localhost'', CHROMA_PORT = 8000, CHROMA_SSL = False,
      CHROMA_AUTH_TOKEN = Some ''secret'', OPENAI_API_KEY = Some ''sk-test''\<rparr>"

text \<open>A stand-in for the digest in the examples: any function of the bytes will do.\<close>

definition length_digest :: "byte list \<Rightarrow> string" where
  "length_digest bs = replicate (length bs) CHR ''f''"

text \<open>
  Constructors for the examples: two that build the object from their arguments, a client
  constructor that cannot connect, and an embedding function constructor that wants a key.
\<close>

definition plain_client ::
  "string \<Rightarrow> int \<Rightarrow> bool \<Rightarrow> (string \<times> string) list \<Rightarrow> error + http_client" where
  "plain_client h p tls hdrs = Inr \<lparr>host = h, port = p, ssl = tls, headers = hdrs\<rparr>"

definition unreachable_client ::
  "string \<Rightarrow> int \<Rightarrow> bool \<Rightarrow> (string \<times> string) list \<Rightarrow> error + http_client" where
  "unreachable_client h p tls hdrs = Inl ConnectionError"

definition plain_embedding_function :: "string option \<Rightarrow> string \<Rightarrow> error + embedding_function" where
  "plain_embedding_function key model = Inr \<lparr>ef_api_key = key, ef_model_name = model\<rparr>"

definition keyed_embedding_function :: "string option \<Rightarrow> string \<Rightarrow> error + embedding_function" where
  "keyed_embedding_function key model =
     (case key of
        None \<Rightarrow> Inl ValueError
      | Some k \<Rightarrow> Inr \<lparr>ef_api_key = key, ef_model_name = model\<rparr>)"

text \<open>A service that refuses the liveness check, and one that fails the call after it.\<close>

definition refuse_heartbeat :: "call \<Rightarrow> error option" where
  "refuse_heartbeat c = (if c = Heartbeat then Some AuthorizationError else None)"

definition fail_after_heartbeat :: "call \<Rightarrow> error option" where
  "fail_after_heartbeat c = (if c = Heartbeat then None else Some RateLimitError)"

section \<open>The response of the service, reshaped\<close>

lemma zip3_maps: "zip (map f xs) (zip (map g xs) (map h xs)) = map (\<lambda>x. (f x, g x, h x)) xs"
  by (induction xs) auto

lemma retrieved_rows:
  "retrieved \<lparr>documents = Some [map doc_text ds], metadatas = Some [map doc_meta ds],
              distances = Some [map (\<lambda>d. dst (doc_text d)) ds]\<rparr>
   = Inr (map (\<lambda>d. \<lparr>r_text = doc_text d, r_metadata = doc_metadata d, r_distance = dst (doc_text d)\<rparr>) ds)"
  by (cases ds) (simp_all add: retrieved_def zip3_maps doc_metadata_def)

lemma query_vector_db_hits:
  assumes "fault s (issued_query conn q f n) = None"
      and "collections s (coll_name (collection conn)) = Some docs"
      and "0 < n"
  shows "query_vector_db conn s q f n =
           (Inr (map (hit_record s conn q) (hits s conn q f n docs)),
            received (issued_query conn q f n) s)"
  using assms
  by (simp add: query_vector_db_def collection_query_def issued_query_def included_def
      nearest_def hits_def hit_record_def retrieved_rows)

lemma query_vector_db_cases:
  "query_vector_db conn s q f n =
     (case fault s (issued_query conn q f n) of
        Some e \<Rightarrow> (Inl e, received (issued_query conn q f n) s)
      | None \<Rightarrow>
         (case collections s (coll_name (collection conn)) of
            None \<Rightarrow> (Inl NotFoundError, received (issued_query conn q f n) s)
          | Some docs \<Rightarrow>
              if n \<le> 0 then (Inl InvalidArgumentError, received (issued_query conn q f n) s)
              else (Inr (map (hit_record s conn q) (hits s conn q f n docs)),
                    received (issued_query conn q f n) s)))"
  by (simp add: query_vector_db_def collection_query_def issued_query_def included_def
      nearest_def hits_def hit_record_def retrieved_rows split: option.splits)

lemma hits_subset: "set (hits s conn q f n docs) \<subseteq> {d \<in> set docs. matches (customer_where f) d}"
  unfolding hits_def using set_take_subset by fastforce

lemma query_Inr_hits:
  assumes "fst (query_vector_db conn s q f n) = Inr rs"
  shows "\<exists>docs. collections s (coll_name (collection conn)) = Some docs \<and> 0 < n \<and>
           rs = map (hit_record s conn q) (hits s conn q f n docs)"
  using assms by (auto simp: query_vector_db_cases split: option.splits if_splits)

lemma matches_spec_in_scope:
  "f \<noteq> Some [] \<Longrightarrow> matches (customer_where f) d = spec_in_scope f d"
  by (cases f) (simp_all add: customer_where_def spec_in_scope_def)

lemma filter_spec_in_scope:
  "f \<noteq> Some [] \<Longrightarrow> filter (matches (customer_where f)) docs = filter (spec_in_scope f) docs"
  by (simp add: matches_spec_in_scope cong: filter_cong)

lemma sorted_hits:
  "sorted (map (r_distance \<circ> hit_record s conn q) (hits s conn q f n docs))"
proof -
  let ?key = "\<lambda>d. embed_distance s (coll_embedding_function (collection conn)) q (doc_text d)"
  have "r_distance \<circ> hit_record s conn q = ?key"
    by (simp add: fun_eq_iff hit_record_def)
  moreover have "sorted (map ?key (sort_key ?key (filter (matches (customer_where f)) docs)))"
    by (rule sorted_sort_key)
  then have "sorted (take (nat n) (map ?key (sort_key ?key (filter (matches (customer_where f)) docs))))"
    by (rule sorted_wrt_take)
  ultimately show ?thesis
    by (simp add: hits_def take_map)
qed

lemma zip3_projections:
  "map fst (zip xs (zip ys zs)) = take (length (zip xs (zip ys zs))) xs"
  "map (fst \<circ> snd) (zip xs (zip ys zs)) = take (length (zip xs (zip ys zs))) ys"
  "map (snd \<circ> snd) (zip xs (zip ys zs)) = take (length (zip xs (zip ys zs))) zs"
  by (induction xs arbitrary: ys zs; case_tac ys; case_tac zs; simp)+

lemma retrieved_three_rows:
  assumes "documents results = Some (docs0 # ds)"
      and "metadatas results = Some (metas0 # ms)"
      and "distances results = Some (dists0 # xs)"
  shows "\<exists>rs. retrieved results = Inr rs \<and>
           length rs = min (length docs0) (min (length metas0) (length dists0)) \<and>
           map r_text rs = take (length rs) docs0 \<and>
           map r_distance rs = take (length rs) dists0 \<and>
           map r_metadata rs =
             map (\<lambda>meta. case meta of None \<Rightarrow> [] | Some m \<Rightarrow> m) (take (length rs) metas0)"
proof -
  let ?z = "zip docs0 (zip metas0 dists0)"
  let ?rs = "map (\<lambda>(doc_text, meta, distance).
                   \<lparr>r_text = doc_text,
                    r_metadata = (case meta of None \<Rightarrow> [] | Some m \<Rightarrow> m),
                    r_distance = distance\<rparr>) ?z"
  have eq: "retrieved results = Inr ?rs"
    using assms by (cases docs0) (simp_all add: retrieved_def)
  have len: "length ?rs = min (length docs0) (min (length metas0) (length dists0))"
    by simp
  have lz: "length ?rs = length ?z"
    by simp
  have "map r_text ?rs = map fst ?z"
    by (simp add: case_prod_beta)
  then have t: "map r_text ?rs = take (length ?rs) docs0"
    by (simp only: zip3_projections(1) lz)
  have "map r_distance ?rs = map (snd \<circ> snd) ?z"
    by (simp add: case_prod_beta)
  then have d: "map r_distance ?rs = take (length ?rs) dists0"
    by (simp only: zip3_projections(3) lz)
  have "map r_metadata ?rs =
          map (\<lambda>meta. case meta of None \<Rightarrow> [] | Some m \<Rightarrow> m) (map (fst \<circ> snd) ?z)"
    by (simp add: case_prod_beta)
  then have m: "map r_metadata ?rs =
          map (\<lambda>meta. case meta of None \<Rightarrow> [] | Some m \<Rightarrow> m) (take (length ?rs) metas0)"
    by (simp only: zip3_projections(2) lz)
  from eq len t d m show ?thesis
    by blast
qed

lemma retrieved_Inr:
  assumes "retrieved results = Inr rs"
  shows "rs = [] \<or>
         (\<exists>docs0 ds metas0 ms dists0 xs.
            documents results = Some (docs0 # ds) \<and> metadatas results = Some (metas0 # ms) \<and>
            distances results = Some (dists0 # xs) \<and>
            map r_text rs = take (length rs) docs0 \<and>
            map r_distance rs = take (length rs) dists0 \<and>
            map r_metadata rs =
              map (\<lambda>meta. case meta of None \<Rightarrow> [] | Some m \<Rightarrow> m) (take (length rs) metas0))"
proof (cases "rs = []")
  case True
  then show ?thesis by simp
next
  case False
  with assms obtain docs0 ds metas0 ms dists0 xs where
    rows: "documents results = Some (docs0 # ds)" "metadatas results = Some (metas0 # ms)"
      "distances results = Some (dists0 # xs)"
    by (auto simp: retrieved_def split: option.splits list.splits if_splits)
  from retrieved_three_rows [OF rows] assms rows show ?thesis
    by auto
qed

lemma retrieved_keeps_order:
  assumes "retrieved results = Inr rs"
      and "\<And>dists0 xs. distances results = Some (dists0 # xs) \<Longrightarrow> sorted dists0"
  shows "sorted (map r_distance rs)"
  using retrieved_Inr [OF assms(1)] assms(2)
  by (auto simp: sorted_wrt_take)

lemma retrieved_keeps_bound:
  assumes "retrieved results = Inr rs"
      and "\<And>docs0 ds. documents results = Some (docs0 # ds) \<Longrightarrow> length docs0 \<le> k"
  shows "length rs \<le> k"
proof -
  from retrieved_Inr [OF assms(1)] show ?thesis
  proof
    assume "rs = []"
    then show ?thesis by simp
  next
    assume "\<exists>docs0 ds metas0 ms dists0 xs.
            documents results = Some (docs0 # ds) \<and> metadatas results = Some (metas0 # ms) \<and>
            distances results = Some (dists0 # xs) \<and>
            map r_text rs = take (length rs) docs0 \<and>
            map r_distance rs = take (length rs) dists0 \<and>
            map r_metadata rs =
              map (\<lambda>meta. case meta of None \<Rightarrow> [] | Some m \<Rightarrow> m) (take (length rs) metas0)"
    then obtain docs0 ds where d: "documents results = Some (docs0 # ds)"
      and t: "map r_text rs = take (length rs) docs0"
      by blast
    from t have "length rs = length (take (length rs) docs0)"
      by (metis length_map)
    then have "length rs \<le> length docs0"
      by simp
    with assms(2) [OF d] show ?thesis
      by simp
  qed
qed

section \<open>Facts about the service and the module\<close>

lemma upsert_ids:
  "map doc_id (upsert f d xs) =
     (if doc_id d \<in> set (map doc_id xs) then map doc_id xs else map doc_id xs @ [doc_id d])"
  by (induction xs) auto

lemma ingest_cases:
  "ingest_to_vector_db h conn s t md =
     (let name = coll_name (collection conn);
          req = \<lparr>add_documents = [t], add_metadatas = [md], add_ids = [h (encode_utf8 t)]\<rparr>
      in case fault s (Add name req) of
           Some e \<Rightarrow> (Inl e, received (Add name req) s)
         | None \<Rightarrow>
            (case collections s name of
               None \<Rightarrow> (Inl NotFoundError, received (Add name req) s)
             | Some docs \<Rightarrow>
                 if list_all (\<lambda>kv. is_scalar (snd kv)) md
                 then (Inr (),
                       (received (Add name req) s)\<lparr>collections := (collections s)(name \<mapsto>
                          upsert (on_duplicate s)
                            \<lparr>doc_id = h (encode_utf8 t), doc_text = t, doc_meta = Some md\<rparr> docs)\<rparr>)
                 else (Inl InvalidArgumentError, received (Add name req) s)))"
  by (simp add: ingest_to_vector_db_def collection_add_def well_formed_add_def new_documents_def
      Let_def split: option.splits)

lemma ingest_calls:
  "calls (snd (ingest_to_vector_db h conn s t md)) =
     calls s @ [Add (coll_name (collection conn))
                  \<lparr>add_documents = [t], add_metadatas = [md], add_ids = [h (encode_utf8 t)]\<rparr>]"
  by (simp add: ingest_cases received_def Let_def split: option.splits)

lemma ingest_stored_ids:
  assumes "fst (ingest_to_vector_db h conn s t md) = Inr ()"
  shows "stored_ids (snd (ingest_to_vector_db h conn s t md)) (coll_name (collection conn)) =
           (if h (encode_utf8 t) \<in> set (stored_ids s (coll_name (collection conn)))
            then stored_ids s (coll_name (collection conn))
            else stored_ids s (coll_name (collection conn)) @ [h (encode_utf8 t)])"
  using assms
  by (auto simp: ingest_cases stored_ids_def received_def Let_def upsert_ids
      split: option.splits if_splits)

lemma ingest_failed_stored_ids:
  assumes "fst (ingest_to_vector_db h conn s t md) = Inl e"
  shows "stored_ids (snd (ingest_to_vector_db h conn s t md)) name = stored_ids s name"
  using assms
  by (auto simp: ingest_cases stored_ids_def received_def Let_def
      split: option.splits if_splits)

lemma ingest_distinct:
  assumes "distinct (stored_ids s name)"
  shows "distinct (stored_ids (snd (ingest_to_vector_db h conn s t md)) name)"
  using assms
  by (auto simp: ingest_cases stored_ids_def received_def Let_def upsert_ids
      split: option.splits if_splits)

lemma count_list_distinct: "distinct xs \<Longrightarrow> x \<in> set xs \<Longrightarrow> count_list xs x = 1"
  by (induction xs) auto

lemma init_cases:
  "get_vector_client_and_collection HC EF cfg s =
     (case HC (CHROMA_HOST cfg) (CHROMA_PORT cfg) (CHROMA_SSL cfg) (auth_headers cfg) of
        Inl e \<Rightarrow> (Inl e, s)
      | Inr cl \<Rightarrow>
         (case fault s Heartbeat of
            Some e \<Rightarrow> (Inl e, received Heartbeat s)
          | None \<Rightarrow>
             (case EF (OPENAI_API_KEY cfg) ''text-embedding-3-small'' of
                Inl e \<Rightarrow> (Inl e, received Heartbeat s)
              | Inr ef \<Rightarrow>
                 (case fault s (GetOrCreateCollection COLLECTION_NAME ef) of
                    Some e \<Rightarrow>
                      (Inl e, received (GetOrCreateCollection COLLECTION_NAME ef)
                                (received Heartbeat s))
                  | None \<Rightarrow>
                      (Inr \<lparr>client = cl,
                            collection = \<lparr>coll_name = COLLECTION_NAME,
                                           coll_embedding_function = ef\<rparr>,
                            embedding_func = ef\<rparr>,
                       (case collections s COLLECTION_NAME of
                          Some _ \<Rightarrow> received (GetOrCreateCollection COLLECTION_NAME ef)
                                      (received Heartbeat s)
                        | None \<Rightarrow> (received (GetOrCreateCollection COLLECTION_NAME ef)
                                      (received Heartbeat s))
                                    \<lparr>collections := (collections s)(COLLECTION_NAME \<mapsto> [])\<rparr>))))))"
  by (simp add: get_vector_client_and_collection_def heartbeat_def get_or_create_collection_def
      received_def Let_def split: option.splits sum.splits)

lemma reset_cases:
  "reset_collection conn s =
     (case fault s (DeleteCollection COLLECTION_NAME) of
        Some e \<Rightarrow> (Inl e, conn, received (DeleteCollection COLLECTION_NAME) s)
      | None \<Rightarrow>
         (case collections s COLLECTION_NAME of
            None \<Rightarrow> (Inl NotFoundError, conn, received (DeleteCollection COLLECTION_NAME) s)
          | Some _ \<Rightarrow>
             (case fault s (GetOrCreateCollection COLLECTION_NAME (embedding_func conn)) of
                Some e \<Rightarrow>
                  (Inl e, conn,
                   s\<lparr>collections := (collections s)(COLLECTION_NAME := None),
                     calls := calls s @ [DeleteCollection COLLECTION_NAME,
                                GetOrCreateCollection COLLECTION_NAME (embedding_func conn)]\<rparr>)
              | None \<Rightarrow>
                  (Inr (),
                   conn\<lparr>collection := \<lparr>coll_name = COLLECTION_NAME,
                                         coll_embedding_function = embedding_func conn\<rparr>\<rparr>,
                   s\<lparr>collections := (collections s)(COLLECTION_NAME \<mapsto> []),
                     calls := calls s @ [DeleteCollection COLLECTION_NAME,
                                GetOrCreateCollection COLLECTION_NAME (embedding_func conn)]\<rparr>))))"
  by (simp add: reset_collection_def delete_collection_def get_or_create_collection_def
      received_def Let_def split: option.splits)

lemma reset_Inr:
  assumes "reset_collection conn s = (Inr (), conn', s')"
  shows "conn' = conn\<lparr>collection := \<lparr>coll_name = COLLECTION_NAME,
                                         coll_embedding_function = embedding_func conn\<rparr>\<rparr>"
    and "s' = s\<lparr>collections := (collections s)(COLLECTION_NAME \<mapsto> []),
                 calls := calls s @ [DeleteCollection COLLECTION_NAME,
                            GetOrCreateCollection COLLECTION_NAME (embedding_func conn)]\<rparr>"
    and "collections s COLLECTION_NAME \<noteq> None"
  using assms by (auto simp: reset_cases split: option.splits)

lemma query_after_reset:
  assumes "reset_collection conn s = (Inr (), conn', s')"
      and "fault s (issued_query conn' q f n) = None"
      and "0 < n"
  shows "fst (query_vector_db conn' s' q f n) = Inr []"
  using assms(2,3) unfolding reset_Inr [OF assms(1)]
  by (simp add: query_vector_db_cases issued_query_def hits_def)

section \<open>The examples, evaluated\<close>

lemmas example_defs = example_server_def example_connector_def acme_doc_def globex_doc_def
  bare_doc_def no_fault_def length_distance_def replace_stored_def example_ef_def
  empty_server_def example_config_def plain_client_def unreachable_client_def
  plain_embedding_function_def keyed_embedding_function_def

lemma example_query_all:
  "fst (query_vector_db example_connector example_server ''renewal'' None 5) =
     Inr [\<lparr>r_text = ''note'', r_metadata = [], r_distance = 4\<rparr>,
          \<lparr>r_text = ''Globex churned'', r_metadata = [(''customer_name'', PStr ''Globex'')],
           r_distance = 14\<rparr>,
          \<lparr>r_text = ''Acme renewed at 50k'', r_metadata = [(''customer_name'', PStr ''Acme'')],
           r_distance = 19\<rparr>]"
  by (simp add: query_vector_db_cases issued_query_def hits_def hit_record_def customer_where_def
      doc_metadata_def example_defs)

lemma example_query_acme:
  "fst (query_vector_db example_connector example_server ''renewal'' (Some ''Acme'') 5) =
     Inr [\<lparr>r_text = ''Acme renewed at 50k'', r_metadata = [(''customer_name'', PStr ''Acme'')],
           r_distance = 19\<rparr>]"
  by (simp add: query_vector_db_cases issued_query_def hits_def hit_record_def customer_where_def
      doc_metadata_def example_defs)

lemma example_reset:
  "reset_collection example_connector example_server =
     (Inr (), example_connector,
      example_server\<lparr>collections := [''sales_features'' \<mapsto> []],
        calls := [DeleteCollection ''sales_features'',
                  GetOrCreateCollection ''sales_features'' example_ef]\<rparr>)"
  by (simp add: reset_cases COLLECTION_NAME_def example_defs)

lemma example_scenario:
  "(case get_vector_client_and_collection plain_client plain_embedding_function example_config
           empty_server of
      (Inl e, _) \<Rightarrow> Inl e
    | (Inr c, s0) \<Rightarrow>
        (case ingest_to_vector_db length_digest c s0
                ''Customer Acme renewed annual contract at $50k''
                [(''customer_name'', PStr ''Acme'')] of
           (Inl e, _) \<Rightarrow> Inl e
         | (Inr _, s1) \<Rightarrow>
             (case ingest_to_vector_db length_digest c s1 ''Globex churned''
                     [(''customer_name'', PStr ''Globex'')] of
                (Inl e, _) \<Rightarrow> Inl e
              | (Inr _, s2) \<Rightarrow> fst (query_vector_db c s2 ''renewal value'' (Some ''Acme'') 5))))
   = Inr [\<lparr>r_text = ''Customer Acme renewed annual contract at $50k'',
           r_metadata = [(''customer_name'', PStr ''Acme'')], r_distance = 45\<rparr>]"
  by (simp add: init_cases ingest_cases query_vector_db_cases Let_def received_def
      issued_query_def hits_def hit_record_def customer_where_def doc_metadata_def
      auth_headers_def COLLECTION_NAME_def length_digest_def encode_utf8_def example_defs)

section \<open>The properties\<close>

subsection \<open>Ingest: the document id\<close>

text \<open>
  C1. For every text \<open>T\<close>, \<open>ingest_to_vector_db\<close> submits as document id the hex digest
  of the UTF-8 bytes of \<open>T\<close>: the id of each add request is \<open>sha256_hex (encode_utf8 T)\<close>.
  Ingesting the same \<open>T\<close> a second time, with any metadata \<open>md2\<close>, submits the same id
  again, and the collection then holds exactly the ids it held after the first ingest:
  that id is stored once, not twice. The ids stored before are distinct, as they are in
  every collection filled through the service (\<open>ingest_distinct\<close>).
\<close>

theorem ingest_same_text_one_id:
  assumes "fst (ingest_to_vector_db sha256_hex conn s T md1) = Inr ()"
      and "s1 = snd (ingest_to_vector_db sha256_hex conn s T md1)"
      and "s2 = snd (ingest_to_vector_db sha256_hex conn s1 T md2)"
      and "distinct (stored_ids s (coll_name (collection conn)))"
  shows "calls s2 =
           calls s @
             [Add (coll_name (collection conn))
                \<lparr>add_documents = [T], add_metadatas = [md1], add_ids = [sha256_hex (encode_utf8 T)]\<rparr>,
              Add (coll_name (collection conn))
                \<lparr>add_documents = [T], add_metadatas = [md2], add_ids = [sha256_hex (encode_utf8 T)]\<rparr>] \<and>
         stored_ids s2 (coll_name (collection conn)) = stored_ids s1 (coll_name (collection conn)) \<and>
         count_list (stored_ids s2 (coll_name (collection conn))) (sha256_hex (encode_utf8 T)) = 1"
proof -
  let ?name = "coll_name (collection conn)"
  let ?id = "sha256_hex (encode_utf8 T)"
  have c: "calls s2 = calls s @
             [Add ?name \<lparr>add_documents = [T], add_metadatas = [md1], add_ids = [?id]\<rparr>,
              Add ?name \<lparr>add_documents = [T], add_metadatas = [md2], add_ids = [?id]\<rparr>]"
    by (simp add: assms(2,3) ingest_calls)
  have i1: "stored_ids s1 ?name =
              (if ?id \<in> set (stored_ids s ?name) then stored_ids s ?name
               else stored_ids s ?name @ [?id])"
    unfolding assms(2) by (rule ingest_stored_ids [OF assms(1)])
  then have mem: "?id \<in> set (stored_ids s1 ?name)" and d1: "distinct (stored_ids s1 ?name)"
    using assms(4) by (auto split: if_splits)
  have i2: "stored_ids s2 ?name = stored_ids s1 ?name"
  proof (cases "fst (ingest_to_vector_db sha256_hex conn s1 T md2)")
    case (Inl e)
    then show ?thesis
      unfolding assms(3) by (rule ingest_failed_stored_ids)
  next
    case (Inr u)
    then have "fst (ingest_to_vector_db sha256_hex conn s1 T md2) = Inr ()"
      by simp
    from ingest_stored_ids [OF this] mem show ?thesis
      unfolding assms(3) by simp
  qed
  from c i2 mem d1 show ?thesis
    by (simp add: count_list_distinct)
qed

text \<open>
  The theorem at a collection of three documents: a new text is ingested twice with
  different metadata, and a fourth id is stored once.
\<close>

theorem ingest_same_text_one_id_witness:
  "fst (ingest_to_vector_db length_digest example_connector example_server ''new deal''
          [(''customer_name'', PStr ''Acme'')]) = Inr () \<and>
   distinct (stored_ids example_server (coll_name (collection example_connector))) \<and>
   stored_ids
     (snd (ingest_to_vector_db length_digest example_connector
        (snd (ingest_to_vector_db length_digest example_connector example_server ''new deal''
                [(''customer_name'', PStr ''Acme'')]))
        ''new deal'' [(''customer_name'', PStr ''Initech'')]))
     (coll_name (collection example_connector)) = [''a1'', ''g1'', ''n1'', ''ffffffff''] \<and>
   count_list
     (stored_ids
       (snd (ingest_to_vector_db length_digest example_connector
          (snd (ingest_to_vector_db length_digest example_connector example_server ''new deal''
                  [(''customer_name'', PStr ''Acme'')]))
          ''new deal'' [(''customer_name'', PStr ''Initech'')]))
       (coll_name (collection example_connector)))
     (length_digest (encode_utf8 ''new deal'')) = 1"
proof -
  let ?s1 = "snd (ingest_to_vector_db length_digest example_connector example_server ''new deal''
                [(''customer_name'', PStr ''Acme'')])"
  have h1: "fst (ingest_to_vector_db length_digest example_connector example_server ''new deal''
                   [(''customer_name'', PStr ''Acme'')]) = Inr ()"
    by (simp add: ingest_cases Let_def length_digest_def encode_utf8_def example_defs)
  have h4: "distinct (stored_ids example_server (coll_name (collection example_connector)))"
    by (simp add: stored_ids_def example_defs)
  have e: "stored_ids ?s1 (coll_name (collection example_connector)) =
             [''a1'', ''g1'', ''n1'', ''ffffffff'']"
    by (simp add: ingest_cases Let_def stored_ids_def received_def length_digest_def
        encode_utf8_def example_defs)
  from ingest_same_text_one_id [OF h1 refl refl h4, of "[(''customer_name'', PStr ''Initech'')]"]
  have same: "stored_ids (snd (ingest_to_vector_db length_digest example_connector ?s1 ''new deal''
                  [(''customer_name'', PStr ''Initech'')]))
                (coll_name (collection example_connector)) =
              stored_ids ?s1 (coll_name (collection example_connector))"
    and once: "count_list
                 (stored_ids (snd (ingest_to_vector_db length_digest example_connector ?s1
                    ''new deal'' [(''customer_name'', PStr ''Initech'')]))
                   (coll_name (collection example_connector)))
                 (length_digest (encode_utf8 ''new deal'')) = 1"
    by blast+
  from same e have "stored_ids (snd (ingest_to_vector_db length_digest example_connector ?s1
                  ''new deal'' [(''customer_name'', PStr ''Initech'')]))
                (coll_name (collection example_connector)) = [''a1'', ''g1'', ''n1'', ''ffffffff'']"
    by (rule trans)
  with h1 h4 once show ?thesis
    by blast
qed

subsection \<open>Query: the customer filter\<close>

text \<open>
  C2, as stated, fails for the empty filter string: \<open>customer_filter = ""\<close> is falsy, no
  filter is sent, and the result holds records whose \<open>customer_name\<close> is not the empty
  string, and one with no metadata at all.
\<close>

theorem query_filter_counterexample:
  "fst (query_vector_db example_connector example_server ''renewal'' (Some '''') 5) =
     Inr [\<lparr>r_text = ''note'', r_metadata = [], r_distance = 4\<rparr>,
          \<lparr>r_text = ''Globex churned'', r_metadata = [(''customer_name'', PStr ''Globex'')],
           r_distance = 14\<rparr>,
          \<lparr>r_text = ''Acme renewed at 50k'', r_metadata = [(''customer_name'', PStr ''Acme'')],
           r_distance = 19\<rparr>] \<and>
   map_of [(''customer_name'', PStr ''Globex'')] ''customer_name'' \<noteq> Some (PStr '''') \<and>
   map_of ([] :: metadata) ''customer_name'' \<noteq> Some (PStr '''')"
  by (simp add: query_vector_db_cases issued_query_def hits_def hit_record_def customer_where_def
      doc_metadata_def example_defs)

text \<open>
  C2, amended. For every query text, every result count and every non-empty customer
  filter \<open>f\<close>, every record \<open>R\<close> that \<open>query_vector_db\<close> returns has
  \<open>R.metadata["customer_name"] = f\<close> exactly, and comes from a stored document whose own
  metadata is that of the record: a document without the field, or with another value,
  never appears.
\<close>

theorem query_filter_nonempty_exact:
  assumes "f \<noteq> []"
      and "fst (query_vector_db conn s q (Some f) n) = Inr rs"
      and "R \<in> set rs"
  shows "map_of (r_metadata R) ''customer_name'' = Some (PStr f) \<and>
         (\<exists>docs d. collections s (coll_name (collection conn)) = Some docs \<and> d \<in> set docs \<and>
            r_text R = doc_text d \<and> doc_meta d = Some (r_metadata R))"
proof -
  from query_Inr_hits [OF assms(2)] obtain docs where
    docs: "collections s (coll_name (collection conn)) = Some docs"
    and rs: "rs = map (hit_record s conn q) (hits s conn q (Some f) n docs)"
    by blast
  from rs assms(3) obtain d where d: "d \<in> set (hits s conn q (Some f) n docs)"
    and R: "R = hit_record s conn q d"
    by auto
  from d hits_subset have din: "d \<in> set docs" and m: "matches (customer_where (Some f)) d"
    by blast+
  from m assms(1) have cn: "map_of (doc_metadata d) ''customer_name'' = Some (PStr f)"
    by (simp add: customer_where_def)
  then have "doc_meta d = Some (doc_metadata d)"
    by (cases "doc_meta d") (simp_all add: doc_metadata_def)
  with cn din docs R show ?thesis
    by (auto simp: hit_record_def)
qed

text \<open>
  The theorem at the filter \<open>"Acme"\<close>: of three stored documents only the one of that
  customer is returned.
\<close>

theorem query_filter_nonempty_exact_witness:
  "''Acme'' \<noteq> [] \<and>
   fst (query_vector_db example_connector example_server ''renewal'' (Some ''Acme'') 5) =
     Inr [\<lparr>r_text = ''Acme renewed at 50k'', r_metadata = [(''customer_name'', PStr ''Acme'')],
           r_distance = 19\<rparr>] \<and>
   map_of (r_metadata \<lparr>r_text = ''Acme renewed at 50k'',
                        r_metadata = [(''customer_name'', PStr ''Acme'')], r_distance = 19\<rparr>)
     ''customer_name'' = Some (PStr ''Acme'')"
proof -
  let ?R = "\<lparr>r_text = ''Acme renewed at 50k'', r_metadata = [(''customer_name'', PStr ''Acme'')],
             r_distance = 19\<rparr>"
  have h1: "''Acme'' \<noteq> []" by simp
  have h3: "?R \<in> set [?R]" by simp
  from query_filter_nonempty_exact [OF h1 example_query_acme h3] h1 example_query_acme
  show ?thesis by blast
qed

subsection \<open>Query: how many records, and in which order\<close>

text \<open>
  C3, as stated, fails for the empty filter string. No stored document has
  \<open>customer_name\<close> equal to the empty string, so no document matches the filter, fewer
  than the five requested; yet the query returns three records, not none.
\<close>

theorem query_result_count_counterexample:
  "collections example_server (coll_name (collection example_connector)) =
     Some [acme_doc, globex_doc, bare_doc] \<and>
   filter (spec_in_scope (Some '''')) [acme_doc, globex_doc, bare_doc] = [] \<and>
   fst (query_vector_db example_connector example_server ''renewal'' (Some '''') 5) =
     Inr [\<lparr>r_text = ''note'', r_metadata = [], r_distance = 4\<rparr>,
          \<lparr>r_text = ''Globex churned'', r_metadata = [(''customer_name'', PStr ''Globex'')],
           r_distance = 14\<rparr>,
          \<lparr>r_text = ''Acme renewed at 50k'', r_metadata = [(''customer_name'', PStr ''Acme'')],
           r_distance = 19\<rparr>]"
  by (simp add: query_vector_db_cases issued_query_def hits_def hit_record_def customer_where_def
      doc_metadata_def spec_in_scope_def example_defs)

text \<open>
  C3, amended. For every query text, every optional filter and every requested count
  \<open>k\<close>, a list that \<open>query_vector_db\<close> returns has length at most \<open>k\<close>. When the service
  answers a request for a positive count and the filter is absent or a non-empty string,
  the length is the smaller of \<open>k\<close> and the number of stored documents that match the
  filter, so it is that number when fewer than \<open>k\<close> of them exist. For the empty filter
  string no filter is sent, and the length is the smaller of \<open>k\<close> and the size of the whole
  collection.
\<close>

theorem query_result_bound:
  "(fst (query_vector_db conn s q f k) = Inr rs \<longrightarrow> int (length rs) \<le> k) \<and>
   (f \<noteq> Some [] \<and> fault s (issued_query conn q f k) = None \<and>
    collections s (coll_name (collection conn)) = Some docs \<and> 0 < k \<longrightarrow>
      (\<exists>rs'. fst (query_vector_db conn s q f k) = Inr rs' \<and>
             length rs' = min (nat k) (length (filter (spec_in_scope f) docs)))) \<and>
   (f = Some [] \<and> fault s (issued_query conn q f k) = None \<and>
    collections s (coll_name (collection conn)) = Some docs \<and> 0 < k \<longrightarrow>
      (\<exists>rs'. fst (query_vector_db conn s q f k) = Inr rs' \<and>
             length rs' = min (nat k) (length docs)))"
proof (intro conjI impI)
  assume "fst (query_vector_db conn s q f k) = Inr rs"
  from query_Inr_hits [OF this] show "int (length rs) \<le> k"
    by (auto simp: hits_def)
next
  assume a: "f \<noteq> Some [] \<and> fault s (issued_query conn q f k) = None \<and>
    collections s (coll_name (collection conn)) = Some docs \<and> 0 < k"
  then have "filter (matches (customer_where f)) docs = filter (spec_in_scope f) docs"
    by (simp add: filter_spec_in_scope)
  with a show "\<exists>rs'. fst (query_vector_db conn s q f k) = Inr rs' \<and>
      length rs' = min (nat k) (length (filter (spec_in_scope f) docs))"
    by (auto simp: query_vector_db_hits hits_def)
next
  assume "f = Some [] \<and> fault s (issued_query conn q f k) = None \<and>
    collections s (coll_name (collection conn)) = Some docs \<and> 0 < k"
  then show "\<exists>rs'. fst (query_vector_db conn s q f k) = Inr rs' \<and>
      length rs' = min (nat k) (length docs)"
    by (auto simp: query_vector_db_hits hits_def customer_where_def)
qed

text \<open>
  The theorem with the filter \<open>"Acme"\<close>, one matching document and five requested: one
  record comes back.
\<close>

theorem query_result_bound_witness:
  "Some ''Acme'' \<noteq> Some [] \<and>
   fault example_server (issued_query example_connector ''renewal'' (Some ''Acme'') 5) = None \<and>
   collections example_server (coll_name (collection example_connector)) =
     Some [acme_doc, globex_doc, bare_doc] \<and>
   (0::int) < 5 \<and>
   length (filter (spec_in_scope (Some ''Acme'')) [acme_doc, globex_doc, bare_doc]) = 1 \<and>
   (\<exists>rs. fst (query_vector_db example_connector example_server ''renewal'' (Some ''Acme'') 5) = Inr rs \<and>
         length rs = 1)"
proof -
  have h0: "Some ''Acme'' \<noteq> Some []" by simp
  have h1: "fault example_server (issued_query example_connector ''renewal'' (Some ''Acme'') 5) = None"
    by (simp add: example_server_def no_fault_def)
  have h2: "collections example_server (coll_name (collection example_connector)) =
              Some [acme_doc, globex_doc, bare_doc]"
    by (simp add: example_server_def example_connector_def)
  have h3: "(0::int) < 5" by simp
  have m: "length (filter (spec_in_scope (Some ''Acme'')) [acme_doc, globex_doc, bare_doc]) = 1"
    by (simp add: spec_in_scope_def doc_metadata_def acme_doc_def globex_doc_def bare_doc_def)
  from query_result_bound [where s = example_server and conn = example_connector
      and q = "''renewal''" and f = "Some ''Acme''" and k = 5
      and docs = "[acme_doc, globex_doc, bare_doc]"] m h0 h1 h2
  show ?thesis
    by auto
qed

text \<open>
  C4. Whatever the query, the list that \<open>query_vector_db\<close> returns is sorted by
  non-decreasing distance, nearest first.
\<close>

theorem query_sorted_by_distance:
  assumes "fst (query_vector_db conn s q f n) = Inr rs"
  shows "sorted (map r_distance rs)"
  using query_Inr_hits [OF assms] sorted_hits [of s conn q f n] by auto

text \<open>
  The theorem for an unfiltered query over three documents, at distances 4, 14 and 19.
\<close>

theorem query_sorted_by_distance_witness:
  "fst (query_vector_db example_connector example_server ''renewal'' None 5) =
     Inr [\<lparr>r_text = ''note'', r_metadata = [], r_distance = 4\<rparr>,
          \<lparr>r_text = ''Globex churned'', r_metadata = [(''customer_name'', PStr ''Globex'')],
           r_distance = 14\<rparr>,
          \<lparr>r_text = ''Acme renewed at 50k'', r_metadata = [(''customer_name'', PStr ''Acme'')],
           r_distance = 19\<rparr>] \<and>
   sorted [4, 14, 19 :: real]"
  using query_sorted_by_distance [OF example_query_all] example_query_all by simp

subsection \<open>Query: nothing to return\<close>

text \<open>
  C5, as stated, fails for the empty filter string: no stored document matches it, yet
  the query returns the two nearest documents of the collection instead of the empty
  list.
\<close>

theorem query_no_match_counterexample:
  "fault example_server (issued_query example_connector ''pricing'' (Some '''') 2) = None \<and>
   collections example_server (coll_name (collection example_connector)) =
     Some [acme_doc, globex_doc, bare_doc] \<and>
   filter (spec_in_scope (Some '''')) [acme_doc, globex_doc, bare_doc] = [] \<and>
   fst (query_vector_db example_connector example_server ''pricing'' (Some '''') 2) =
     Inr [\<lparr>r_text = ''note'', r_metadata = [], r_distance = 4\<rparr>,
          \<lparr>r_text = ''Globex churned'', r_metadata = [(''customer_name'', PStr ''Globex'')],
           r_distance = 14\<rparr>]"
  by (simp add: query_vector_db_cases issued_query_def hits_def hit_record_def customer_where_def
      doc_metadata_def spec_in_scope_def example_defs)

text \<open>
  C5, amended. When the service answers a query (for a positive count) and the collection
  is empty, or the filter is absent or a non-empty string and no stored document matches
  it, \<open>query_vector_db\<close> returns the empty list and raises nothing. In particular a query
  on a collection that has just been reset returns the empty list.
\<close>

theorem query_no_match_empty:
  "(fault s (issued_query conn q f n) = None \<and>
    collections s (coll_name (collection conn)) = Some docs \<and> 0 < n \<and>
    (docs = [] \<or> f \<noteq> Some [] \<and> filter (spec_in_scope f) docs = [])
      \<longrightarrow> fst (query_vector_db conn s q f n) = Inr []) \<and>
   (reset_collection conn s = (Inr (), conn', s') \<and>
    fault s' (issued_query conn' q f n) = None \<and> 0 < n
      \<longrightarrow> fst (query_vector_db conn' s' q f n) = Inr [])"
proof (intro conjI impI)
  assume a: "fault s (issued_query conn q f n) = None \<and>
    collections s (coll_name (collection conn)) = Some docs \<and> 0 < n \<and>
    (docs = [] \<or> f \<noteq> Some [] \<and> filter (spec_in_scope f) docs = [])"
  then have "filter (matches (customer_where f)) docs = []"
    using filter_spec_in_scope [of f docs] by auto
  with a show "fst (query_vector_db conn s q f n) = Inr []"
    by (simp add: query_vector_db_hits hits_def)
next
  assume a: "reset_collection conn s = (Inr (), conn', s') \<and>
    fault s' (issued_query conn' q f n) = None \<and> 0 < n"
  then have "fault s' = fault s"
    using reset_Inr(2) [of conn s conn' s'] by simp
  with a show "fst (query_vector_db conn' s' q f n) = Inr []"
    using query_after_reset [of conn s conn' s' q f n] by simp
qed

text \<open>
  The theorem for a non-empty filter that no stored document matches, and for a
  successful reset followed by a query on the connector and service it leaves.
\<close>

theorem query_no_match_empty_witness:
  "fault example_server (issued_query example_connector ''renewal'' (Some ''Initech'') 5) = None \<and>
   collections example_server (coll_name (collection example_connector)) =
     Some [acme_doc, globex_doc, bare_doc] \<and>
   (0::int) < 5 \<and>
   Some ''Initech'' \<noteq> Some [] \<and>
   filter (spec_in_scope (Some ''Initech'')) [acme_doc, globex_doc, bare_doc] = [] \<and>
   fst (query_vector_db example_connector example_server ''renewal'' (Some ''Initech'') 5) = Inr [] \<and>
   reset_collection example_connector example_server =
     (Inr (), example_connector,
      example_server\<lparr>collections := [''sales_features'' \<mapsto> []],
        calls := [DeleteCollection ''sales_features'',
                  GetOrCreateCollection ''sales_features'' example_ef]\<rparr>) \<and>
   fault (example_server\<lparr>collections := [''sales_features'' \<mapsto> []],
            calls := [DeleteCollection ''sales_features'',
                      GetOrCreateCollection ''sales_features'' example_ef]\<rparr>)
     (issued_query example_connector ''renewal'' None 5) = None \<and>
   fst (query_vector_db example_connector
          (example_server\<lparr>collections := [''sales_features'' \<mapsto> []],
             calls := [DeleteCollection ''sales_features'',
                       GetOrCreateCollection ''sales_features'' example_ef]\<rparr>)
          ''renewal'' None 5) = Inr []"
proof -
  let ?s' = "example_server\<lparr>collections := [''sales_features'' \<mapsto> []],
               calls := [DeleteCollection ''sales_features'',
                         GetOrCreateCollection ''sales_features'' example_ef]\<rparr>"
  have h0: "(0::int) < 5" "Some ''Initech'' \<noteq> Some []"
    by simp_all
  have h1: "fault example_server (issued_query example_connector ''renewal'' (Some ''Initech'') 5) = None"
    by (simp add: example_server_def no_fault_def)
  have h2: "collections example_server (coll_name (collection example_connector)) =
              Some [acme_doc, globex_doc, bare_doc]"
    by (simp add: example_server_def example_connector_def)
  have h3: "filter (spec_in_scope (Some ''Initech'')) [acme_doc, globex_doc, bare_doc] = []"
    by (simp add: spec_in_scope_def doc_metadata_def acme_doc_def globex_doc_def bare_doc_def)
  have h4: "fault ?s' (issued_query example_connector ''renewal'' None 5) = None"
    by (simp add: example_server_def no_fault_def)
  have a: "fst (query_vector_db example_connector example_server ''renewal'' (Some ''Initech'') 5) = Inr []"
    using query_no_match_empty [where s = example_server and conn = example_connector
        and q = "''renewal''" and f = "Some ''Initech''" and n = 5
        and docs = "[acme_doc, globex_doc, bare_doc]"] h0 h1 h2 h3
    by simp
  have b: "fst (query_vector_db example_connector ?s' ''renewal'' None 5) = Inr []"
    using query_no_match_empty [where s = example_server and conn = example_connector
        and conn' = example_connector and s' = ?s' and q = "''renewal''" and f = None and n = 5]
      h4 example_reset
    by simp
  from a b h0 h1 h2 h3 h4 example_reset show ?thesis
    by blast
qed

subsection \<open>Reset\<close>

text \<open>
  C6. A successful \<open>reset_collection\<close> has sent a delete of the collection and then a
  get-or-create with the module's embedding function, in this order; the collection
  exists again and is empty, the other collections are untouched, the global handle is
  replaced by the one for the recreated collection, bound to the same embedding function,
  and the client and the embedding function are kept. Every query answered afterwards
  returns no record, whatever it returned before the reset.
\<close>

theorem reset_collection_empties:
  assumes "reset_collection conn s = (Inr (), conn', s')"
  shows "calls s' = calls s @ [DeleteCollection COLLECTION_NAME,
                      GetOrCreateCollection COLLECTION_NAME (embedding_func conn)] \<and>
         collections s' COLLECTION_NAME = Some [] \<and>
         (\<forall>name. name \<noteq> COLLECTION_NAME \<longrightarrow> collections s' name = collections s name) \<and>
         collection conn' = \<lparr>coll_name = COLLECTION_NAME,
                              coll_embedding_function = embedding_func conn\<rparr> \<and>
         embedding_func conn' = embedding_func conn \<and> client conn' = client conn \<and>
         (fault s (issued_query conn' q f n) = None \<and> 0 < n
            \<longrightarrow> fst (query_vector_db conn' s' q f n) = Inr [])"
  using query_after_reset [OF assms, of q f n]
  unfolding reset_Inr [OF assms] by simp

text \<open>
  The theorem at the three-document collection: the query that returned one record
  before the reset returns none after it.
\<close>

theorem reset_collection_empties_witness:
  "fst (query_vector_db example_connector example_server ''renewal'' (Some ''Acme'') 5) =
     Inr [\<lparr>r_text = ''Acme renewed at 50k'', r_metadata = [(''customer_name'', PStr ''Acme'')],
           r_distance = 19\<rparr>] \<and>
   reset_collection example_connector example_server =
     (Inr (), example_connector,
      example_server\<lparr>collections := [''sales_features'' \<mapsto> []],
        calls := [DeleteCollection ''sales_features'',
                  GetOrCreateCollection ''sales_features'' example_ef]\<rparr>) \<and>
   fst (query_vector_db example_connector
          (example_server\<lparr>collections := [''sales_features'' \<mapsto> []],
             calls := [DeleteCollection ''sales_features'',
                       GetOrCreateCollection ''sales_features'' example_ef]\<rparr>)
          ''renewal'' (Some ''Acme'') 5) = Inr []"
proof -
  have f: "fault example_server (issued_query example_connector ''renewal'' (Some ''Acme'') 5) = None"
    by (simp add: example_server_def no_fault_def)
  from reset_collection_empties [OF example_reset, of "''renewal''" "Some ''Acme''" 5] f
    example_reset example_query_acme
  show ?thesis by (simp add: COLLECTION_NAME_def)
qed

subsection \<open>Ingest: the metadata\<close>

text \<open>
  C7, as stated, fails: a metadata mapping with a list value is neither rejected nor
  coerced by \<open>ingest_to_vector_db\<close>; the add request the service receives carries the
  list unchanged.
\<close>

theorem ingest_metadata_counterexample:
  "calls (snd (ingest_to_vector_db length_digest example_connector example_server ''note''
                 [(''tags'', PList [PStr ''a'', PStr ''b''])])) =
     [Add ''sales_features''
        \<lparr>add_documents = [''note''],
         add_metadatas = [[(''tags'', PList [PStr ''a'', PStr ''b''])]],
         add_ids = [''ffff'']\<rparr>] \<and>
   \<not> is_scalar (PList [PStr ''a'', PStr ''b''])"
  by (simp add: ingest_cases Let_def received_def length_digest_def encode_utf8_def
      example_defs)

text \<open>
  C7, amended. For every metadata mapping, also one that contains a non-scalar value,
  \<open>ingest_to_vector_db\<close> submits the add request with the mapping unchanged; it neither
  rejects nor coerces, and any refusal is the remote service's.
\<close>

theorem ingest_metadata_unchanged:
  "calls (snd (ingest_to_vector_db sha256_hex conn s t metadata)) =
     calls s @ [Add (coll_name (collection conn))
                  \<lparr>add_documents = [t], add_metadatas = [metadata],
                   add_ids = [sha256_hex (encode_utf8 t)]\<rparr>]"
  by (rule ingest_calls)

subsection \<open>Initialisation\<close>

text \<open>
  C8, as stated, fails. A liveness check refused for authorisation makes initialisation
  raise that same error, which is not a \<open>ConnectionError\<close>. And initialisation raises
  although the liveness check completed: when the get-or-create call after it fails, and
  when the embedding function cannot be constructed for want of an API key.
\<close>

theorem init_counterexample:
  "fst (get_vector_client_and_collection plain_client plain_embedding_function example_config
          (empty_server\<lparr>fault := refuse_heartbeat\<rparr>)) = Inl AuthorizationError \<and>
   AuthorizationError \<noteq> ConnectionError \<and>
   fault (empty_server\<lparr>fault := fail_after_heartbeat\<rparr>) Heartbeat = None \<and>
   fst (get_vector_client_and_collection plain_client plain_embedding_function example_config
          (empty_server\<lparr>fault := fail_after_heartbeat\<rparr>)) = Inl RateLimitError \<and>
   fault empty_server Heartbeat = None \<and>
   fst (get_vector_client_and_collection plain_client keyed_embedding_function
          (example_config\<lparr>OPENAI_API_KEY := None\<rparr>) empty_server) = Inl ValueError"
  by (simp add: init_cases refuse_heartbeat_def fail_after_heartbeat_def empty_server_def
      example_config_def no_fault_def plain_client_def plain_embedding_function_def
      keyed_embedding_function_def)

text \<open>
  C8, amended. Initialisation raises \<open>e\<close> exactly when one of its four steps raises \<open>e\<close>:
  constructing the client, the liveness check, constructing the embedding function, or
  the get-or-create call, each reached only when the steps before it completed. The
  exception is that step's own, re-raised unchanged whatever its type. At most one
  liveness attempt is made; after a failed one no other remote call is made, and when the
  client cannot be constructed none is made at all: the failure is not retried.
\<close>

theorem init_reraises_step_error:
  "(fst (get_vector_client_and_collection HttpClient OpenAIEmbeddingFunction cfg s) = Inl e \<longleftrightarrow>
      HttpClient (CHROMA_HOST cfg) (CHROMA_PORT cfg) (CHROMA_SSL cfg) (auth_headers cfg) = Inl e \<or>
      (\<exists>cl. HttpClient (CHROMA_HOST cfg) (CHROMA_PORT cfg) (CHROMA_SSL cfg) (auth_headers cfg)
              = Inr cl) \<and>
        (fault s Heartbeat = Some e \<or>
         fault s Heartbeat = None \<and>
           (OpenAIEmbeddingFunction (OPENAI_API_KEY cfg) ''text-embedding-3-small'' = Inl e \<or>
            (\<exists>ef. OpenAIEmbeddingFunction (OPENAI_API_KEY cfg) ''text-embedding-3-small'' = Inr ef \<and>
                  fault s (GetOrCreateCollection COLLECTION_NAME ef) = Some e)))) \<and>
   count_list (calls (snd (get_vector_client_and_collection HttpClient OpenAIEmbeddingFunction cfg s)))
       Heartbeat
     \<le> count_list (calls s) Heartbeat + 1 \<and>
   (HttpClient (CHROMA_HOST cfg) (CHROMA_PORT cfg) (CHROMA_SSL cfg) (auth_headers cfg) = Inr cl \<and>
    fault s Heartbeat = Some e \<longrightarrow>
      calls (snd (get_vector_client_and_collection HttpClient OpenAIEmbeddingFunction cfg s)) =
        calls s @ [Heartbeat]) \<and>
   (HttpClient (CHROMA_HOST cfg) (CHROMA_PORT cfg) (CHROMA_SSL cfg) (auth_headers cfg) = Inl e \<longrightarrow>
      calls (snd (get_vector_client_and_collection HttpClient OpenAIEmbeddingFunction cfg s)) =
        calls s)"
  by (auto simp: init_cases received_def split: option.splits sum.splits)

text \<open>
  The theorem at a service that refuses the liveness check (the error is the one raised
  and the service has received a single call), and at a client that cannot be constructed
  (the service has received nothing).
\<close>

theorem init_reraises_step_error_witness:
  "plain_client (CHROMA_HOST example_config) (CHROMA_PORT example_config)
     (CHROMA_SSL example_config) (auth_headers example_config) =
     Inr \<lparr>host = ''localhost'', port = 8000, ssl = False,
          headers = [(''Authorization'', ''Bearer secret'')]\<rparr> \<and>
   fault (empty_server\<lparr>fault := refuse_heartbeat\<rparr>) Heartbeat = Some AuthorizationError \<and>
   fst (get_vector_client_and_collection plain_client plain_embedding_function example_config
          (empty_server\<lparr>fault := refuse_heartbeat\<rparr>)) = Inl AuthorizationError \<and>
   calls (snd (get_vector_client_and_collection plain_client plain_embedding_function
          example_config (empty_server\<lparr>fault := refuse_heartbeat\<rparr>))) = [Heartbeat] \<and>
   unreachable_client (CHROMA_HOST example_config) (CHROMA_PORT example_config)
     (CHROMA_SSL example_config) (auth_headers example_config) = Inl ConnectionError \<and>
   fst (get_vector_client_and_collection unreachable_client plain_embedding_function
          example_config empty_server) = Inl ConnectionError \<and>
   calls (snd (get_vector_client_and_collection unreachable_client plain_embedding_function
          example_config empty_server)) = []"
proof -
  let ?cl = "\<lparr>host = ''localhost'', port = 8000, ssl = False,
              headers = [(''Authorization'', ''Bearer secret'')]\<rparr>"
  have k: "plain_client (CHROMA_HOST example_config) (CHROMA_PORT example_config)
             (CHROMA_SSL example_config) (auth_headers example_config) = Inr ?cl"
    by (simp add: plain_client_def example_config_def auth_headers_def)
  have h: "fault (empty_server\<lparr>fault := refuse_heartbeat\<rparr>) Heartbeat = Some AuthorizationError"
    by (simp add: refuse_heartbeat_def)
  have c: "calls (empty_server\<lparr>fault := refuse_heartbeat\<rparr>) = []" "calls empty_server = []"
    by (simp_all add: empty_server_def)
  have u: "unreachable_client (CHROMA_HOST example_config) (CHROMA_PORT example_config)
             (CHROMA_SSL example_config) (auth_headers example_config) = Inl ConnectionError"
    by (simp add: unreachable_client_def)
  have a: "fst (get_vector_client_and_collection plain_client plain_embedding_function example_config
             (empty_server\<lparr>fault := refuse_heartbeat\<rparr>)) = Inl AuthorizationError \<and>
           calls (snd (get_vector_client_and_collection plain_client plain_embedding_function
             example_config (empty_server\<lparr>fault := refuse_heartbeat\<rparr>))) = [Heartbeat]"
    using init_reraises_step_error [where HttpClient = plain_client
        and OpenAIEmbeddingFunction = plain_embedding_function and cfg = example_config
        and s = "empty_server\<lparr>fault := refuse_heartbeat\<rparr>" and e = AuthorizationError
        and cl = ?cl] k h c
    by simp
  have b: "fst (get_vector_client_and_collection unreachable_client plain_embedding_function
             example_config empty_server) = Inl ConnectionError \<and>
           calls (snd (get_vector_client_and_collection unreachable_client plain_embedding_function
             example_config empty_server)) = []"
    using init_reraises_step_error [where HttpClient = unreachable_client
        and OpenAIEmbeddingFunction = plain_embedding_function and cfg = example_config
        and s = empty_server and e = ConnectionError] u c
    by simp
  from k h u a b show ?thesis
    by blast
qed

subsection \<open>Query: the empty filter string\<close>

text \<open>
  C9. \<open>query_vector_db\<close> with \<open>customer_filter = ""\<close> applies no metadata filter: the
  request it sends has \<open>where = None\<close>, and the outcome is that of the same call with
  \<open>customer_filter = None\<close>.
\<close>

theorem query_empty_filter_is_no_filter:
  "query_vector_db conn s q (Some '''') n = query_vector_db conn s q None n \<and>
   calls (snd (query_vector_db conn s q (Some '''') n)) =
     calls s @ [Query (coll_name (collection conn))
                  \<lparr>query_texts = [q], n_results = n, where_filter = None,
                   include_keys = [''documents'', ''metadatas'', ''distances'']\<rparr>]"
  by (simp add: query_vector_db_cases issued_query_def customer_where_def received_def
      hits_def split: option.splits)

subsection \<open>Query: parallel arrays of different lengths\<close>

text \<open>
  C10. For every response that has the three arrays \<open>documents[0]\<close>, \<open>metadatas[0]\<close> and
  \<open>distances[0]\<close>, the list built from it has as many records as the shortest of the
  three: longer arrays are cut, nothing is raised. The records are the leading elements
  of the arrays, position by position, and a metadata that is \<open>None\<close> becomes the empty
  mapping.
\<close>

theorem retrieved_length_min:
  assumes "documents results = Some (docs0 # ds)"
      and "metadatas results = Some (metas0 # ms)"
      and "distances results = Some (dists0 # xs)"
  shows "\<exists>rs. retrieved results = Inr rs \<and>
           length rs = min (length docs0) (min (length metas0) (length dists0)) \<and>
           map r_text rs = take (length rs) docs0 \<and>
           map r_distance rs = take (length rs) dists0 \<and>
           map r_metadata rs =
             map (\<lambda>meta. case meta of None \<Rightarrow> [] | Some m \<Rightarrow> m) (take (length rs) metas0)"
  using assms by (rule retrieved_three_rows)

text \<open>
  The theorem for three documents, two metadata entries (the first \<open>None\<close>) and three
  distances: two records.
\<close>

theorem retrieved_length_min_witness:
  "\<exists>rs. retrieved \<lparr>documents = Some [[''a'', ''b'', ''c'']],
                    metadatas = Some [[None, Some [(''customer_name'', PStr ''Acme'')]]],
                    distances = Some [[1, 2, 3]]\<rparr> = Inr rs \<and>
        length rs = 2 \<and> map r_text rs = [''a'', ''b''] \<and> map r_distance rs = [1, 2] \<and>
        map r_metadata rs = [[], [(''customer_name'', PStr ''Acme'')]]"
  using retrieved_length_min [of
      "\<lparr>documents = Some [[''a'', ''b'', ''c'']],
        metadatas = Some [[None, Some [(''customer_name'', PStr ''Acme'')]]],
        distances = Some [[1, 2, 3]]\<rparr>"
      "[''a'', ''b'', ''c'']" "[]" "[None, Some [(''customer_name'', PStr ''Acme'')]]" "[]"
      "[1, 2, 3]" "[]"]
  by auto

end
